theory Spec2Isabelle
  imports Main "HOL-Library.Word"
begin

unbundle bit_operations_syntax

section \<open>Strings: the three functions of Go's \<open>strings\<close> package that \<open>translateDest\<close> calls\<close>

text \<open>
  A Go string is a sequence of bytes, here a \<^typ>\<open>string\<close>. Both separators of
  \<open>translateDest\<close> are one byte long (\<open>"="\<close> and \<open>","\<close>), so a separator is a
  \<^typ>\<open>char\<close>.

  \<open>strings.SplitN(s, sep, n)\<close> for \<open>n > 0\<close> cuts at the first \<open>n - 1\<close> separators
  and leaves the remainder whole in the last piece; for \<open>n = 0\<close> it returns nothing.
\<close>

fun SplitN :: "string \<Rightarrow> char \<Rightarrow> nat \<Rightarrow> string list" where
  "SplitN s sep 0 = []"
| "SplitN s sep (Suc 0) = [s]"
| "SplitN [] sep (Suc (Suc n)) = [[]]"
| "SplitN (c # cs) sep (Suc (Suc n)) =
     (if c = sep then [] # SplitN cs sep (Suc n)
      else (case SplitN cs sep (Suc (Suc n)) of
              [] \<Rightarrow> [[c]]
            | p # ps \<Rightarrow> (c # p) # ps))"

text \<open>\<open>strings.Split(s, sep)\<close> cuts at every separator; \<open>Split("", sep)\<close> is \<open>[""]\<close>.\<close>

fun Split :: "string \<Rightarrow> char \<Rightarrow> string list" where
  "Split [] sep = [[]]"
| "Split (c # cs) sep =
     (if c = sep then [] # Split cs sep
      else (case Split cs sep of
              [] \<Rightarrow> [[c]]
            | p # ps \<Rightarrow> (c # p) # ps))"

text \<open>\<open>strings.Join(elems, sep)\<close>.\<close>

fun Join :: "string list \<Rightarrow> string \<Rightarrow> string" where
  "Join [] sep = []"
| "Join [p] sep = p"
| "Join (p # q # ps) sep = p @ sep @ Join (q # ps) sep"

section \<open>Errors\<close>

text \<open>
  One constructor for each place where \<open>add\<close>, \<open>create\<close> or \<open>translateDest\<close> makes
  or hands on an error. An error that comes from a collaborator (\<open>url.Parse\<close>,
  \<open>os.Stat\<close>, \<open>ssh.Create\<close>, \<open>config.ReadCustomConfig\<close>, \<open>cfg.Write\<close>) is returned
  by the code as it is; the constructor records where it came from and carries the
  collaborator's own error. \<open>AdditionalOptions\<close> carries the string that the message
  formats with \<open>%q\<close>, \<open>NotUnixSocket\<close> the path.
\<close>

datatype error =
    HostRequired                      \<comment> \<open>\<open>"host" is requited for --docker option\<close>\<close>
  | AdditionalOptions string          \<comment> \<open>\<open>--docker additional options %q not supported\<close>\<close>
  | UrlParseError string              \<comment> \<open>the error of \<open>url.Parse\<close>\<close>
  | InvalidSSHMode                    \<comment> \<open>\<open>invalid ssh mode\<close>\<close>
  | IdentityNotSupportedUnix          \<comment> \<open>\<open>--identity option not supported for unix scheme\<close>\<close>
  | StatError string                  \<comment> \<open>an error of \<open>os.Stat\<close> other than the two tolerated\<close>
  | NotUnixSocket string              \<comment> \<open>\<open>%q exists and is not a unix domain socket\<close>\<close>
  | SocketPathNotSupportedTcp         \<comment> \<open>\<open>--socket-path option not supported for tcp scheme\<close>\<close>
  | IdentityNotSupportedTcp           \<comment> \<open>\<open>--identity option not supported for tcp scheme\<close>\<close>
  | TcpRequiresPort                   \<comment> \<open>\<open>tcp scheme requires a port either via --port or in destination URL\<close>\<close>
  | SshCreateError string             \<comment> \<open>the error of \<open>ssh.Create\<close>\<close>
  | ReadConfigError string            \<comment> \<open>the error of \<open>config.ReadCustomConfig\<close>\<close>
  | WriteError string                 \<comment> \<open>the error of \<open>cfg.Write\<close>\<close>

section \<open>\<open>translateDest\<close>\<close>

definition translateDest :: "string \<Rightarrow> error + string" where
  "translateDest path =
     (if path = [] then Inr []
      else
        let split = SplitN path (CHR ''='') 2 in
        if length split = 1 then Inr (split ! 0)
        else if split ! 0 \<noteq> ''host'' then Inl HostRequired
        else
          let vals = Split (split ! 1) (CHR '','') in
          if length vals > 1 then Inl (AdditionalOptions (Join (drop 1 vals) '',''))
          else Inr (vals ! 0))"

section \<open>Scheme defaulting\<close>

text \<open>
  Both \<open>add\<close> and \<open>create\<close> test the destination with
  \<open>regexp.MatchString("^[A-Za-z][A-Za-z0-9+.-]*://", dest)\<close>. The pattern is a constant
  that compiles, so the error branch of \<open>MatchString\<close> is never taken and the call is a
  boolean function of the string. The pattern is anchored at the start only. No byte of
  the class is \<open>:\<close>, so the starred class consumes every class byte it meets and
  \<open>://\<close> has to follow the first byte outside the class.
\<close>

definition is_letter :: "char \<Rightarrow> bool" where
  "is_letter c =
     (let n = (of_char c :: nat) in (65 \<le> n \<and> n \<le> 90) \<or> (97 \<le> n \<and> n \<le> 122))"

definition is_scheme_char :: "char \<Rightarrow> bool" where
  "is_scheme_char c =
     (let n = (of_char c :: nat) in
        is_letter c \<or> (48 \<le> n \<and> n \<le> 57) \<or> c = CHR ''+'' \<or> c = CHR ''.'' \<or> c = CHR ''-'')"

fun match_scheme_rest :: "string \<Rightarrow> bool" where
  "match_scheme_rest [] = False"
| "match_scheme_rest (c # cs) =
     (if is_scheme_char c then match_scheme_rest cs else take 3 (c # cs) = ''://'')"

definition MatchString_scheme :: "string \<Rightarrow> bool" where
  "MatchString_scheme dest =
     (case dest of [] \<Rightarrow> False | c # cs \<Rightarrow> is_letter c \<and> match_scheme_rest cs)"

text \<open>
  The language of the pattern, written out as the set of strings with a prefix
  "one letter, then any number of letters, digits, \<open>+\<close>, \<open>.\<close> or \<open>-\<close>, then \<open>://\<close>".
  The matcher above is compared with it below.
\<close>

definition scheme_pattern :: "string \<Rightarrow> bool" where
  "scheme_pattern dest =
     (\<exists>a bs rest. dest = a # bs @ ''://'' @ rest \<and> is_letter a \<and> list_all is_scheme_char bs)"

text \<open>Lines 109-113 of \<open>add\<close> and 206-210 of \<open>create\<close>.\<close>

definition default_scheme :: "string \<Rightarrow> string" where
  "default_scheme dest = (if \<not> MatchString_scheme dest then ''ssh://'' @ dest else dest)"

section \<open>Data\<close>

text \<open>
  The flag set of the \<open>add\<close> command: \<open>cmd.Flags().Changed(name)\<close>, and the variables
  \<open>cOpts\<close> that the flags are bound to. \<open>cmd.Flag("socket-path").Value.String()\<close> is the
  current value of \<open>cOpts.UDSPath\<close>.
\<close>

record flags =
  Changed :: "string \<Rightarrow> bool"
  Identity :: string
  Port :: int
  UDSPath :: string
  Default :: bool

text \<open>The fields of \<open>url.URL\<close>; the code reads \<open>Scheme\<close> and writes \<open>Path\<close>.\<close>

record URL =
  Scheme :: string
  User :: string
  Host :: string
  Path :: string
  RawQuery :: string
  Fragment :: string

text \<open>\<open>ssh.ConnectionCreateOptions\<close>, as \<open>add\<close> fills it.\<close>

record ConnectionCreateOptions =
  cc_Port :: int
  cc_Path :: string
  cc_Identity :: string
  cc_Name :: string
  cc_Socket :: string
  cc_Default :: bool

datatype EngineMode = NativeMode | GolangMode | InvalidMode

text \<open>
  \<open>config.Destination\<close> and the two fields of \<open>cfg.Engine\<close> that the code touches. A Go
  map can be \<open>nil\<close>: \<open>None\<close> is the nil map, \<open>Some m\<close> an allocated one (which may hold
  no entry).
\<close>

record Destination =
  URI :: string
  dst_Identity :: string

record EngineConfig =
  ActiveService :: string
  ServiceDestinations :: "(string \<rightharpoonup> Destination) option"

record Config =
  Engine :: EngineConfig

text \<open>
  What \<open>os.Stat\<close> returns: an error, which the code tests with
  \<open>errors.Is(err, os.ErrNotExist)\<close> and \<open>errors.Is(err, os.ErrPermission)\<close>, or a
  \<open>FileInfo\<close> whose \<open>Mode()\<close> is a 32-bit \<open>FileMode\<close>. \<open>os.ModeSocket\<close> is the eighth
  mode bit from the top, \<open>1 << (32 - 1 - 7)\<close>.
\<close>

datatype stat_error = ErrNotExist | ErrPermission | ErrOther string

record FileInfo =
  Mode :: "32 word"

definition ModeSocket :: "32 word" where
  "ModeSocket = push_bit 24 1"

text \<open>
  The calls that leave the function, in the order they are made: \<open>url.Parse\<close> with
  its argument, \<open>os.Stat\<close> with its argument, the three \<open>logrus.Warnf\<close>,
  \<open>ssh.Create\<close> with its arguments, \<open>config.ReadCustomConfig\<close>, and \<open>cfg.Write\<close>
  with the configuration it is called on.
\<close>

datatype warning =
    DoesNotExist string               \<comment> \<open>\<open>%q does not exist\<close>\<close>
  | NoPermission string               \<comment> \<open>\<open>You do not have permission to read %q\<close>\<close>
  | UnknownScheme string              \<comment> \<open>\<open>%q unknown scheme, no validation provided\<close>\<close>

datatype event =
    EvParse string
  | EvStat string
  | EvWarn warning
  | EvSshCreate ConnectionCreateOptions EngineMode
  | EvReadConfig
  | EvWrite Config

text \<open>
  The collaborators. None of them is code of this package, so each is a parameter:
  the URL parser and the two methods of \<open>url.URL\<close> that the code calls, the configured
  ssh mode (\<open>registry.PodmanConfig().SSHMode\<close>) and \<open>ssh.DefineMode\<close>, \<open>os.Stat\<close>,
  \<open>ssh.Create\<close>, and the reader and writer of the connection registry. \<open>'w\<close> is the
  persisted state that the last three read and change. A collaborator's error is its
  message.
\<close>

record 'w env =
  url_Parse :: "string \<Rightarrow> string + URL"
  url_Port :: "URL \<Rightarrow> string"
  url_String :: "URL \<Rightarrow> string"
  SSHMode :: string
  DefineMode :: "string \<Rightarrow> EngineMode"
  os_Stat :: "string \<Rightarrow> stat_error + FileInfo"
  ssh_Create :: "ConnectionCreateOptions \<Rightarrow> EngineMode \<Rightarrow> 'w \<Rightarrow> string option \<times> 'w"
  ReadCustomConfig :: "'w \<Rightarrow> string + Config"
  Write :: "Config \<Rightarrow> 'w \<Rightarrow> string option \<times> 'w"

text \<open>What a command returns: its error, the persisted state, and the calls it made.\<close>

type_synonym 'w outcome = "error option \<times> 'w \<times> event list"

section \<open>\<open>add\<close>\<close>

text \<open>
  Lines 176-197: the change that \<open>add\<close> makes to the loaded configuration. \<open>name\<close> is
  \<open>args[0]\<close>, \<open>uri\<close> is \<open>uri.String()\<close>.
\<close>

definition add_update :: "flags \<Rightarrow> string \<Rightarrow> string \<Rightarrow> Config \<Rightarrow> Config" where
  "add_update fl name uri cfg =
     (let active1 =
            (if Changed fl ''default'' then
               (if Default fl then name else ActiveService (Engine cfg))
             else ActiveService (Engine cfg));
          dst = \<lparr>URI = uri,
                 dst_Identity = (if Changed fl ''identity'' then Identity fl else [])\<rparr>
      in case ServiceDestinations (Engine cfg) of
           None \<Rightarrow>
             cfg\<lparr>Engine := (Engine cfg)\<lparr>ServiceDestinations := Some [name \<mapsto> dst],
                                         ActiveService := name\<rparr>\<rparr>
         | Some m \<Rightarrow>
             cfg\<lparr>Engine := (Engine cfg)\<lparr>ServiceDestinations := Some (m(name \<mapsto> dst)),
                                         ActiveService := active1\<rparr>\<rparr>)"

text \<open>
  Lines 171-198: load the configuration, change it, write it. \<open>tr\<close> holds the calls
  made so far.
\<close>

definition add_store ::
  "'w env \<Rightarrow> flags \<Rightarrow> string \<Rightarrow> URL \<Rightarrow> 'w \<Rightarrow> event list \<Rightarrow> 'w outcome" where
  "add_store env fl name uri w tr =
     (case ReadCustomConfig env w of
        Inl e \<Rightarrow> (Some (ReadConfigError e), w, tr @ [EvReadConfig])
      | Inr cfg \<Rightarrow>
          let cfg' = add_update fl name (url_String env uri) cfg;
              (r, w') = Write env cfg' w
          in (map_option WriteError r, w', tr @ [EvReadConfig, EvWrite cfg']))"

text \<open>
  \<open>add\<close>. The command takes exactly two arguments (\<open>cobra.ExactArgs(2)\<close>): \<open>name\<close> is
  \<open>args[0]\<close> and \<open>dest0\<close> is \<open>args[1]\<close>.
\<close>

definition add :: "'w env \<Rightarrow> flags \<Rightarrow> string \<Rightarrow> string \<Rightarrow> 'w \<Rightarrow> 'w outcome" where
  "add env fl name dest0 w =
     (let entities = \<lparr>cc_Port = Port fl, cc_Path = dest0, cc_Identity = Identity fl,
                      cc_Name = name, cc_Socket = UDSPath fl, cc_Default = Default fl\<rparr>;
          dest = default_scheme dest0
      in case url_Parse env dest of
           Inl e \<Rightarrow> (Some (UrlParseError e), w, [EvParse dest])
         | Inr uri0 \<Rightarrow>
             let uri = (if Changed fl ''socket-path'' then uri0\<lparr>Path := UDSPath fl\<rparr> else uri0);
                 sshMode = DefineMode env (SSHMode env)
             in
             if sshMode = InvalidMode then (Some InvalidSSHMode, w, [EvParse dest])
             else if Scheme uri = ''ssh'' then
               (let (r, w') = ssh_Create env entities sshMode w
                in (map_option SshCreateError r, w', [EvParse dest, EvSshCreate entities sshMode]))
             else if Scheme uri = ''unix'' then
               (if Changed fl ''identity'' then (Some IdentityNotSupportedUnix, w, [EvParse dest])
                else
                  let uri = (if Changed fl ''socket-path'' then uri\<lparr>Path := UDSPath fl\<rparr> else uri)
                  in case os_Stat env (Path uri) of
                       Inl ErrNotExist \<Rightarrow>
                         add_store env fl name uri w
                           [EvParse dest, EvStat (Path uri), EvWarn (DoesNotExist (Path uri))]
                     | Inl ErrPermission \<Rightarrow>
                         add_store env fl name uri w
                           [EvParse dest, EvStat (Path uri), EvWarn (NoPermission (Path uri))]
                     | Inl (ErrOther e) \<Rightarrow>
                         (Some (StatError e), w, [EvParse dest, EvStat (Path uri)])
                     | Inr info \<Rightarrow>
                         if Mode info AND ModeSocket = 0 then
                           (Some (NotUnixSocket (Path uri)), w, [EvParse dest, EvStat (Path uri)])
                         else add_store env fl name uri w [EvParse dest, EvStat (Path uri)])
             else if Scheme uri = ''tcp'' then
               (if Changed fl ''socket-path'' then
                  (Some SocketPathNotSupportedTcp, w, [EvParse dest])
                else if Changed fl ''identity'' then
                  (Some IdentityNotSupportedTcp, w, [EvParse dest])
                else if url_Port env uri = [] then (Some TcpRequiresPort, w, [EvParse dest])
                else add_store env fl name uri w [EvParse dest])
             else add_store env fl name uri w [EvParse dest, EvWarn (UnknownScheme (Scheme uri))])"

section \<open>\<open>create\<close>\<close>

text \<open>Lines 222-233: the change that \<open>create\<close> makes to the loaded configuration.\<close>

definition create_update :: "string \<Rightarrow> string \<Rightarrow> Config \<Rightarrow> Config" where
  "create_update name uri cfg =
     (let dst = \<lparr>URI = uri, dst_Identity = []\<rparr>
      in case ServiceDestinations (Engine cfg) of
           None \<Rightarrow>
             cfg\<lparr>Engine := (Engine cfg)\<lparr>ServiceDestinations := Some [name \<mapsto> dst],
                                         ActiveService := name\<rparr>\<rparr>
         | Some m \<Rightarrow>
             cfg\<lparr>Engine := (Engine cfg)\<lparr>ServiceDestinations := Some (m(name \<mapsto> dst))\<rparr>\<rparr>)"

text \<open>
  \<open>create\<close>. The command takes exactly one argument (\<open>cobra.ExactArgs(1)\<close>): \<open>name\<close> is
  \<open>args[0]\<close>; \<open>dockerPath\<close> is the value of the flag \<open>--docker\<close>.
\<close>

definition create :: "'w env \<Rightarrow> string \<Rightarrow> string \<Rightarrow> 'w \<Rightarrow> 'w outcome" where
  "create env dockerPath name w =
     (case translateDest dockerPath of
        Inl e \<Rightarrow> (Some e, w, [])
      | Inr dest0 \<Rightarrow>
          let dest = default_scheme dest0
          in case url_Parse env dest of
               Inl e \<Rightarrow> (Some (UrlParseError e), w, [EvParse dest])
             | Inr uri \<Rightarrow>
                 (case ReadCustomConfig env w of
                    Inl e \<Rightarrow> (Some (ReadConfigError e), w, [EvParse dest, EvReadConfig])
                  | Inr cfg \<Rightarrow>
                      let cfg' = create_update name (url_String env uri) cfg;
                          (r, w') = Write env cfg' w
                      in (map_option WriteError r, w', [EvParse dest, EvReadConfig, EvWrite cfg'])))"

section \<open>A sample environment\<close>

text \<open>
  The theorems below hold for every environment. To run the commands on concrete
  inputs, the collaborators are instantiated with small stand-ins: a parser for
  destinations of the shape \<open>scheme://host[:port][/path]\<close>, the two ssh modes
  \<open>native\<close> and \<open>golang\<close>, a file system with four known paths, an \<open>ssh.Create\<close> that
  reports success and stores nothing, and a registry that is held in memory, so that the
  persisted state is the \<^typ>\<open>Config\<close> itself.
\<close>

fun sample_cut :: "string \<Rightarrow> string \<Rightarrow> (string \<times> string) option" where
  "sample_cut acc [] = None"
| "sample_cut acc (c # cs) =
     (if take 3 (c # cs) = ''://'' then Some (rev acc, drop 3 (c # cs))
      else sample_cut (c # acc) cs)"

definition sample_Parse :: "string \<Rightarrow> string + URL" where
  "sample_Parse s =
     (case sample_cut [] s of
        None \<Rightarrow> Inl ''missing protocol scheme''
      | Some (sch, rest) \<Rightarrow>
          Inr \<lparr>Scheme = sch, User = [], Host = takeWhile (\<lambda>c. c \<noteq> CHR ''/'') rest,
               Path = dropWhile (\<lambda>c. c \<noteq> CHR ''/'') rest, RawQuery = [], Fragment = []\<rparr>)"

definition sample_Port :: "URL \<Rightarrow> string" where
  "sample_Port u =
     (if CHR '':'' \<in> set (Host u) then rev (takeWhile (\<lambda>c. c \<noteq> CHR '':'') (rev (Host u)))
      else [])"

definition sample_String :: "URL \<Rightarrow> string" where
  "sample_String u = Scheme u @ ''://'' @ Host u @ Path u"

definition sample_DefineMode :: "string \<Rightarrow> EngineMode" where
  "sample_DefineMode flag =
     (if flag = ''native'' then NativeMode
      else if flag = ''golang'' then GolangMode
      else InvalidMode)"

definition sample_Stat :: "string \<Rightarrow> stat_error + FileInfo" where
  "sample_Stat p =
     (if p = ''/etc/hostname'' then Inr \<lparr>Mode = 420\<rparr>
      else if p = ''/run/podman/podman.sock'' then Inr \<lparr>Mode = ModeSocket OR 432\<rparr>
      else if p = ''/root/podman.sock'' then Inl ErrPermission
      else if p = ''/mnt/stale/podman.sock'' then Inl (ErrOther ''stale file handle'')
      else Inl ErrNotExist)"

definition sample_env :: "Config env" where
  "sample_env =
     \<lparr>url_Parse = sample_Parse, url_Port = sample_Port, url_String = sample_String,
      SSHMode = ''golang'', DefineMode = sample_DefineMode, os_Stat = sample_Stat,
      ssh_Create = (\<lambda>entities mode w. (None, w)),
      ReadCustomConfig = (\<lambda>w. Inr w),
      Write = (\<lambda>cfg w. (None, cfg))\<rparr>"

text \<open>Flags as they are when none is given on the command line, and two registries.\<close>

definition no_flags :: flags where
  "no_flags = \<lparr>Changed = (\<lambda>f. False), Identity = [], Port = 22, UDSPath = [], Default = False\<rparr>"

definition empty_registry :: Config where
  "empty_registry = \<lparr>Engine = \<lparr>ActiveService = [], ServiceDestinations = None\<rparr>\<rparr>"

definition laptop_registry :: Config where
  "laptop_registry =
     \<lparr>Engine = \<lparr>ActiveService = ''laptop'',
                ServiceDestinations =
                  Some [''laptop'' \<mapsto> \<lparr>URI = ''ssh://laptop:22'', dst_Identity = []\<rparr>]\<rparr>\<rparr>"

section \<open>Facts about the string functions\<close>

lemma SplitN_2_no_sep: "sep \<notin> set s \<Longrightarrow> SplitN s sep (Suc (Suc 0)) = [s]"
  by (induction s) auto

lemma SplitN_2_at_first_sep:
  "sep \<notin> set k \<Longrightarrow> SplitN (k @ sep # v) sep (Suc (Suc 0)) = [k, v]"
  by (induction k) auto

lemma Split_no_sep: "sep \<notin> set s \<Longrightarrow> Split s sep = [s]"
  by (induction s) auto

lemma Split_at_first_sep: "sep \<notin> set a \<Longrightarrow> Split (a @ sep # r) sep = a # Split r sep"
  by (induction a) auto

lemma Split_not_Nil: "Split s sep \<noteq> []"
  by (induction s) (auto split: list.splits)

lemma Join_Split: "Join (Split s sep) [sep] = s"
proof (induction s)
  case Nil
  show ?case by simp
next
  case (Cons c cs)
  show ?case
  proof (cases "c = sep")
    case True
    obtain p ps where "Split cs sep = p # ps"
      using Split_not_Nil [of cs sep] by (cases "Split cs sep") auto
    with True Cons show ?thesis by simp
  next
    case False
    obtain p ps where ps: "Split cs sep = p # ps"
      using Split_not_Nil [of cs sep] by (cases "Split cs sep") auto
    with False Cons show ?thesis by (cases ps) auto
  qed
qed

section \<open>The matcher accepts the language of the pattern\<close>

lemma colon_not_scheme_char: "\<not> is_scheme_char (CHR '':'')"
  by (simp add: is_scheme_char_def is_letter_def)

lemma match_scheme_rest_iff:
  "match_scheme_rest cs \<longleftrightarrow> (\<exists>bs rest. cs = bs @ ''://'' @ rest \<and> list_all is_scheme_char bs)"
proof
  show "match_scheme_rest cs \<Longrightarrow> \<exists>bs rest. cs = bs @ ''://'' @ rest \<and> list_all is_scheme_char bs"
  proof (induction cs)
    case Nil
    then show ?case by simp
  next
    case (Cons c cs)
    show ?case
    proof (cases "is_scheme_char c")
      case True
      with Cons obtain bs rest where "cs = bs @ ''://'' @ rest" "list_all is_scheme_char bs"
        by auto
      with True have "c # cs = (c # bs) @ ''://'' @ rest \<and> list_all is_scheme_char (c # bs)"
        by simp
      then show ?thesis by blast
    next
      case False
      with Cons.prems have "take 3 (c # cs) = ''://''" by simp
      then have "c # cs = [] @ ''://'' @ drop 3 (c # cs)"
        by (metis append_Nil append_take_drop_id)
      then have "c # cs = [] @ ''://'' @ drop 3 (c # cs) \<and> list_all is_scheme_char []"
        by simp
      then show ?thesis by blast
    qed
  qed
next
  assume "\<exists>bs rest. cs = bs @ ''://'' @ rest \<and> list_all is_scheme_char bs"
  then obtain bs rest where "cs = bs @ ''://'' @ rest" "list_all is_scheme_char bs" by blast
  then show "match_scheme_rest cs"
    by (induction bs arbitrary: cs) (auto simp: colon_not_scheme_char)
qed

lemma MatchString_scheme_iff: "MatchString_scheme dest \<longleftrightarrow> scheme_pattern dest"
  by (cases dest) (auto simp: MatchString_scheme_def scheme_pattern_def match_scheme_rest_iff)

lemma MatchString_scheme_ssh: "MatchString_scheme (''ssh://'' @ dest)"
  by (simp add: MatchString_scheme_def is_letter_def is_scheme_char_def)

section \<open>The translator\<close>

lemma SplitN_host: "SplitN (''host='' @ v) (CHR ''='') 2 = [''host'', v]"
  using SplitN_2_at_first_sep [of "CHR ''=''" "''host''" v] by (simp add: numeral_2_eq_2)

lemma translateDest_host:
  "translateDest (''host='' @ v) =
     (if length (Split v (CHR '','')) > 1
      then Inl (AdditionalOptions (Join (drop 1 (Split v (CHR '',''))) '',''))
      else Inr (Split v (CHR '','') ! 0))"
  unfolding translateDest_def SplitN_host by (simp add: Let_def)

text \<open>
  Claim C8. \<open>translateDest\<close> returns the empty string for the empty string, returns
  every input without \<open>=\<close> as it is, and returns the value of every input
  \<open>host=<value>\<close> whose value has no comma; none of the three is an error.
\<close>

theorem translateDest_success:
  "translateDest [] = Inr [] \<and>
   (CHR ''='' \<notin> set path \<longrightarrow> translateDest path = Inr path) \<and>
   (CHR '','' \<notin> set v \<longrightarrow> translateDest (''host='' @ v) = Inr v)"
proof (intro conjI impI)
  show "translateDest [] = Inr []" by (simp add: translateDest_def)
next
  assume "CHR ''='' \<notin> set path"
  then have "SplitN path (CHR ''='') 2 = [path]"
    by (simp add: numeral_2_eq_2 SplitN_2_no_sep)
  then show "translateDest path = Inr path" by (simp add: translateDest_def)
next
  assume "CHR '','' \<notin> set v"
  then have "Split v (CHR '','') = [v]" by (rule Split_no_sep)
  then show "translateDest (''host='' @ v) = Inr v"
    using translateDest_host [of v] by simp
qed

theorem translateDest_success_witness:
  "translateDest [] = Inr [] \<and>
   translateDest ''root@server.fubar.com'' = Inr ''root@server.fubar.com'' \<and>
   translateDest ''host=tcp://h:1'' = Inr ''tcp://h:1''"
  using translateDest_success [of "''root@server.fubar.com''" "''tcp://h:1''"] by simp

text \<open>
  Claim C7. An input with a \<open>=\<close> whose part before the first \<open>=\<close> is not \<open>host\<close> fails
  with the error "host is requited for --docker option" (the invalid option of the
  specification). An input \<open>host=<value>\<close> whose value splits at commas into more than
  one segment fails with the error "--docker additional options ... not supported" (its
  unsupported option), which carries the segments after the first joined by commas; that
  string is the value after its first comma, byte for byte.
\<close>

theorem translateDest_errors:
  "(CHR ''='' \<notin> set k \<and> k \<noteq> ''host'' \<longrightarrow> translateDest (k @ CHR ''='' # v) = Inl HostRequired) \<and>
   (length (Split x (CHR '','')) > 1 \<longrightarrow>
      translateDest (''host='' @ x) =
        Inl (AdditionalOptions (Join (drop 1 (Split x (CHR '',''))) '',''))) \<and>
   (CHR '','' \<notin> set a \<longrightarrow>
      length (Split (a @ CHR '','' # r) (CHR '','')) > 1 \<and>
      translateDest (''host='' @ a @ CHR '','' # r) = Inl (AdditionalOptions r))"
proof (intro conjI impI)
  assume "CHR ''='' \<notin> set k \<and> k \<noteq> ''host''"
  then have "SplitN (k @ CHR ''='' # v) (CHR ''='') 2 = [k, v]" and "k \<noteq> ''host''"
    by (simp_all add: numeral_2_eq_2 SplitN_2_at_first_sep)
  then show "translateDest (k @ CHR ''='' # v) = Inl HostRequired"
    by (simp add: translateDest_def)
next
  assume "length (Split x (CHR '','')) > 1"
  then show "translateDest (''host='' @ x) =
      Inl (AdditionalOptions (Join (drop 1 (Split x (CHR '',''))) '',''))"
    using translateDest_host [of x] by simp
next
  assume a: "CHR '','' \<notin> set a"
  then have s: "Split (a @ CHR '','' # r) (CHR '','') = a # Split r (CHR '','')"
    by (rule Split_at_first_sep)
  then show "length (Split (a @ CHR '','' # r) (CHR '','')) > 1"
    using Split_not_Nil [of r "CHR '',''"] by (cases "Split r (CHR '','')") auto
  then show "translateDest (''host='' @ a @ CHR '','' # r) = Inl (AdditionalOptions r)"
    using Join_Split [of r "CHR '',''"] translateDest_host [of "a @ CHR '','' # r"]
    by (simp add: s)
qed

theorem translateDest_errors_witness:
  "translateDest ''user=foo'' = Inl HostRequired \<and>
   translateDest ''host=tcp://h:1,ca=x,cert=y'' = Inl (AdditionalOptions ''ca=x,cert=y'')"
  using translateDest_errors [of "''user''" "''foo''" "''tcp://h:1,ca=x,cert=y''"
      "''tcp://h:1''" "''ca=x,cert=y''"]
  by simp

section \<open>Scheme defaulting and the argument of the parser\<close>

lemma add_store_trace_hd:
  "\<exists>rest. snd (snd (add_store env fl name uri w (e # tr))) = e # rest"
  by (simp add: add_store_def Let_def split: sum.splits prod.splits)

lemma add_trace_hd:
  "\<exists>tr. snd (snd (add env fl name dest w)) = EvParse (default_scheme dest) # tr"
  by (simp add: add_def Let_def add_store_trace_hd
      split: sum.splits prod.splits stat_error.splits)

lemma create_trace_hd:
  "translateDest dockerPath = Inr dest \<Longrightarrow>
   \<exists>tr. snd (snd (create env dockerPath name w)) = EvParse (default_scheme dest) # tr"
  by (simp add: create_def Let_def split: sum.splits prod.splits)

text \<open>
  Claim C2. A destination that does not start with "letter, then letters, digits, \<open>+\<close>,
  \<open>.\<close> or \<open>-\<close>, then \<open>://\<close>" gets \<open>ssh://\<close> in front, once: the result starts with
  such a prefix, so defaulting it again changes nothing. A destination that starts with
  such a prefix, whatever the scheme, is left as it is. The string so obtained is the one
  that \<open>add\<close> and \<open>create\<close> hand to the URL parser, as their first call.
\<close>

theorem scheme_defaulting:
  "(scheme_pattern dest \<longrightarrow> default_scheme dest = dest) \<and>
   (\<not> scheme_pattern dest \<longrightarrow>
      default_scheme dest = ''ssh://'' @ dest \<and> scheme_pattern (''ssh://'' @ dest)) \<and>
   default_scheme (default_scheme dest) = default_scheme dest \<and>
   (\<exists>tr. snd (snd (add env fl name dest w)) = EvParse (default_scheme dest) # tr) \<and>
   (translateDest dockerPath = Inr dest \<longrightarrow>
      (\<exists>tr. snd (snd (create env dockerPath name w)) = EvParse (default_scheme dest) # tr))"
proof -
  have m: "MatchString_scheme (default_scheme dest)"
    using MatchString_scheme_ssh [of dest] by (simp add: default_scheme_def)
  have "scheme_pattern dest \<longrightarrow> default_scheme dest = dest"
    by (simp add: default_scheme_def MatchString_scheme_iff)
  moreover have "\<not> scheme_pattern dest \<longrightarrow>
      default_scheme dest = ''ssh://'' @ dest \<and> scheme_pattern (''ssh://'' @ dest)"
    using MatchString_scheme_ssh [of dest]
    by (simp add: default_scheme_def MatchString_scheme_iff)
  moreover have "default_scheme (default_scheme dest) = default_scheme dest"
    using m by (simp add: default_scheme_def [of "default_scheme dest"])
  ultimately show ?thesis
    using add_trace_hd [of env fl name dest w] create_trace_hd [of dockerPath dest env name w]
    by blast
qed

theorem scheme_defaulting_witness:
  "\<not> scheme_pattern ''root@server.fubar.com'' \<and>
   default_scheme ''root@server.fubar.com'' = ''ssh://root@server.fubar.com'' \<and>
   scheme_pattern ''foo+bar://host/x'' \<and>
   default_scheme ''foo+bar://host/x'' = ''foo+bar://host/x'' \<and>
   translateDest ''host=localhost'' = Inr ''localhost'' \<and>
   (\<exists>tr. snd (snd (create sample_env ''host=localhost'' ''ctx'' empty_registry)) =
      EvParse ''ssh://localhost'' # tr)"
  using scheme_defaulting [of "''root@server.fubar.com''" sample_env no_flags "''ctx''"
      empty_registry "''host=root@server.fubar.com''"]
    scheme_defaulting [of "''foo+bar://host/x''" sample_env no_flags "''ctx''"
      empty_registry "''host=foo+bar://host/x''"]
    scheme_defaulting [of "''localhost''" sample_env no_flags "''ctx''"
      empty_registry "''host=localhost''"]
    translateDest_host [of "''localhost''"]
  by (auto simp: MatchString_scheme_iff [symmetric] MatchString_scheme_def is_letter_def
      is_scheme_char_def)

section \<open>The registry update\<close>

text \<open>
  Claim C1. When \<open>add\<close> stores a record under \<open>name\<close>: if the loaded map is nil, the
  active service becomes \<open>name\<close> whatever the flag \<open>--default\<close>; if the map is
  allocated, the active service becomes \<open>name\<close> when \<open>--default\<close> was given with a true
  value and stays what it was otherwise. In both cases the record is stored under
  \<open>name\<close>.
\<close>

theorem upsert_active_pointer:
  "(ServiceDestinations (Engine cfg) = None \<longrightarrow>
      ActiveService (Engine (add_update fl name uri cfg)) = name) \<and>
   (ServiceDestinations (Engine cfg) \<noteq> None \<and> Changed fl ''default'' \<and> Default fl \<longrightarrow>
      ActiveService (Engine (add_update fl name uri cfg)) = name) \<and>
   (ServiceDestinations (Engine cfg) \<noteq> None \<and> \<not> (Changed fl ''default'' \<and> Default fl) \<longrightarrow>
      ActiveService (Engine (add_update fl name uri cfg)) = ActiveService (Engine cfg)) \<and>
   (\<exists>m. ServiceDestinations (Engine (add_update fl name uri cfg)) = Some m \<and>
        m name = Some \<lparr>URI = uri,
                        dst_Identity = (if Changed fl ''identity'' then Identity fl else [])\<rparr>)"
  by (cases "ServiceDestinations (Engine cfg)") (auto simp: add_update_def)

theorem upsert_active_pointer_witness:
  "ActiveService (Engine (add_update no_flags ''debug'' ''tcp://localhost:8080'' empty_registry)) = ''debug'' \<and>
   ActiveService (Engine (add_update (no_flags\<lparr>Changed := (\<lambda>f. f = ''default''), Default := True\<rparr>)
      ''debug'' ''tcp://localhost:8080'' laptop_registry)) = ''debug'' \<and>
   ActiveService (Engine (add_update (no_flags\<lparr>Changed := (\<lambda>f. f = ''default''), Default := False\<rparr>)
      ''debug'' ''tcp://localhost:8080'' laptop_registry)) = ''laptop'' \<and>
   ActiveService (Engine (add_update no_flags ''debug'' ''tcp://localhost:8080'' laptop_registry)) = ''laptop''"
  using upsert_active_pointer [of empty_registry no_flags "''debug''" "''tcp://localhost:8080''"]
    upsert_active_pointer [of laptop_registry "no_flags\<lparr>Changed := (\<lambda>f. f = ''default''), Default := True\<rparr>" "''debug''" "''tcp://localhost:8080''"]
    upsert_active_pointer [of laptop_registry "no_flags\<lparr>Changed := (\<lambda>f. f = ''default''), Default := False\<rparr>" "''debug''" "''tcp://localhost:8080''"]
    upsert_active_pointer [of laptop_registry no_flags "''debug''" "''tcp://localhost:8080''"]
  by (simp add: empty_registry_def laptop_registry_def no_flags_def)

section \<open>\<open>add\<close>, branch by branch\<close>



lemma add_store_error:
  "add_store env fl name uri w tr = (Some e, w', tr') \<Longrightarrow>
   (\<exists>x. e = ReadConfigError x) \<or> (\<exists>x. e = WriteError x)"
  by (auto simp: add_store_def Let_def split: sum.splits prod.splits)

lemma add_ssh:
  assumes "url_Parse env (default_scheme dest) = Inr uri0"
    and "DefineMode env (SSHMode env) \<noteq> InvalidMode"
    and "Scheme uri0 = ''ssh''"
  shows "add env fl name dest w =
     (let entities = \<lparr>cc_Port = Port fl, cc_Path = dest, cc_Identity = Identity fl,
                      cc_Name = name, cc_Socket = UDSPath fl, cc_Default = Default fl\<rparr>;
          mode = DefineMode env (SSHMode env);
          r = ssh_Create env entities mode w
      in (map_option SshCreateError (fst r), snd r,
          [EvParse (default_scheme dest), EvSshCreate entities mode]))"
  using assms by (simp add: add_def Let_def split: prod.splits)

lemma add_unix:
  assumes "url_Parse env (default_scheme dest) = Inr uri0"
    and "DefineMode env (SSHMode env) \<noteq> InvalidMode"
    and "Scheme uri0 = ''unix''"
    and "uri = (if Changed fl ''socket-path'' then uri0\<lparr>Path := UDSPath fl\<rparr> else uri0)"
  shows "add env fl name dest w =
     (if Changed fl ''identity'' then
        (Some IdentityNotSupportedUnix, w, [EvParse (default_scheme dest)])
      else case os_Stat env (Path uri) of
          Inl ErrNotExist \<Rightarrow>
            add_store env fl name uri w
              [EvParse (default_scheme dest), EvStat (Path uri), EvWarn (DoesNotExist (Path uri))]
        | Inl ErrPermission \<Rightarrow>
            add_store env fl name uri w
              [EvParse (default_scheme dest), EvStat (Path uri), EvWarn (NoPermission (Path uri))]
        | Inl (ErrOther e) \<Rightarrow>
            (Some (StatError e), w, [EvParse (default_scheme dest), EvStat (Path uri)])
        | Inr info \<Rightarrow>
            if Mode info AND ModeSocket = 0 then
              (Some (NotUnixSocket (Path uri)), w, [EvParse (default_scheme dest), EvStat (Path uri)])
            else add_store env fl name uri w [EvParse (default_scheme dest), EvStat (Path uri)])"
  using assms(1-3) unfolding assms(4)
  by (simp add: add_def Let_def split: sum.splits stat_error.splits)

lemma add_tcp:
  assumes "url_Parse env (default_scheme dest) = Inr uri0"
    and "DefineMode env (SSHMode env) \<noteq> InvalidMode"
    and "Scheme uri0 = ''tcp''"
    and "uri = (if Changed fl ''socket-path'' then uri0\<lparr>Path := UDSPath fl\<rparr> else uri0)"
  shows "add env fl name dest w =
     (if Changed fl ''socket-path'' then
        (Some SocketPathNotSupportedTcp, w, [EvParse (default_scheme dest)])
      else if Changed fl ''identity'' then
        (Some IdentityNotSupportedTcp, w, [EvParse (default_scheme dest)])
      else if url_Port env uri = [] then
        (Some TcpRequiresPort, w, [EvParse (default_scheme dest)])
      else add_store env fl name uri w [EvParse (default_scheme dest)])"
  using assms(1-3) unfolding assms(4) by (simp add: add_def Let_def)

lemma add_other:
  assumes "url_Parse env (default_scheme dest) = Inr uri0"
    and "DefineMode env (SSHMode env) \<noteq> InvalidMode"
    and "Scheme uri0 \<noteq> ''ssh''" and "Scheme uri0 \<noteq> ''unix''" and "Scheme uri0 \<noteq> ''tcp''"
    and "uri = (if Changed fl ''socket-path'' then uri0\<lparr>Path := UDSPath fl\<rparr> else uri0)"
  shows "add env fl name dest w =
     add_store env fl name uri w
       [EvParse (default_scheme dest), EvWarn (UnknownScheme (Scheme uri0))]"
  using assms(1-5) unfolding assms(6) by (simp add: add_def Let_def)

lemma add_parse_error:
  "url_Parse env (default_scheme dest) = Inl x \<Longrightarrow>
   add env fl name dest w = (Some (UrlParseError x), w, [EvParse (default_scheme dest)])"
  by (simp add: add_def)

lemma add_invalid_mode:
  "url_Parse env (default_scheme dest) = Inr uri0 \<Longrightarrow>
   DefineMode env (SSHMode env) = InvalidMode \<Longrightarrow>
   add env fl name dest w = (Some InvalidSSHMode, w, [EvParse (default_scheme dest)])"
  by (simp add: add_def Let_def)

section \<open>The sample environment, evaluated\<close>

lemma sample_mode: "DefineMode sample_env (SSHMode sample_env) = GolangMode"
  by (simp add: sample_env_def sample_DefineMode_def)

lemma sample_scheme_simps:
  "default_scheme ''unix:///run/podman/podman.sock'' = ''unix:///run/podman/podman.sock''"
  "default_scheme ''unix:///etc/hostname'' = ''unix:///etc/hostname''"
  "default_scheme ''unix:///does/not/exist'' = ''unix:///does/not/exist''"
  "default_scheme ''unix:///root/podman.sock'' = ''unix:///root/podman.sock''"
  "default_scheme ''unix:///mnt/stale/podman.sock'' = ''unix:///mnt/stale/podman.sock''"
  "default_scheme ''tcp://localhost:8080'' = ''tcp://localhost:8080''"
  "default_scheme ''tcp://localhost'' = ''tcp://localhost''"
  "default_scheme ''ssh://h'' = ''ssh://h''"
  "default_scheme ''server.fubar.com'' = ''ssh://server.fubar.com''"
  "default_scheme ''foo://h/x'' = ''foo://h/x''"
  by (simp_all add: default_scheme_def MatchString_scheme_def is_letter_def is_scheme_char_def)

lemma sample_parse_simps:
  "url_Parse sample_env ''unix:///run/podman/podman.sock'' =
     Inr \<lparr>Scheme = ''unix'', User = [], Host = [], Path = ''/run/podman/podman.sock'',
          RawQuery = [], Fragment = []\<rparr>"
  "url_Parse sample_env ''unix:///etc/hostname'' =
     Inr \<lparr>Scheme = ''unix'', User = [], Host = [], Path = ''/etc/hostname'',
          RawQuery = [], Fragment = []\<rparr>"
  "url_Parse sample_env ''unix:///does/not/exist'' =
     Inr \<lparr>Scheme = ''unix'', User = [], Host = [], Path = ''/does/not/exist'',
          RawQuery = [], Fragment = []\<rparr>"
  "url_Parse sample_env ''unix:///root/podman.sock'' =
     Inr \<lparr>Scheme = ''unix'', User = [], Host = [], Path = ''/root/podman.sock'',
          RawQuery = [], Fragment = []\<rparr>"
  "url_Parse sample_env ''unix:///mnt/stale/podman.sock'' =
     Inr \<lparr>Scheme = ''unix'', User = [], Host = [], Path = ''/mnt/stale/podman.sock'',
          RawQuery = [], Fragment = []\<rparr>"
  "url_Parse sample_env ''tcp://localhost:8080'' =
     Inr \<lparr>Scheme = ''tcp'', User = [], Host = ''localhost:8080'', Path = [],
          RawQuery = [], Fragment = []\<rparr>"
  "url_Parse sample_env ''tcp://localhost'' =
     Inr \<lparr>Scheme = ''tcp'', User = [], Host = ''localhost'', Path = [],
          RawQuery = [], Fragment = []\<rparr>"
  "url_Parse sample_env ''ssh://h'' =
     Inr \<lparr>Scheme = ''ssh'', User = [], Host = ''h'', Path = [], RawQuery = [], Fragment = []\<rparr>"
  "url_Parse sample_env ''ssh://server.fubar.com'' =
     Inr \<lparr>Scheme = ''ssh'', User = [], Host = ''server.fubar.com'', Path = [], RawQuery = [], Fragment = []\<rparr>"
  "url_Parse sample_env ''foo://h/x'' =
     Inr \<lparr>Scheme = ''foo'', User = [], Host = ''h'', Path = ''/x'', RawQuery = [], Fragment = []\<rparr>"
  by (simp_all add: sample_env_def sample_Parse_def)

lemma sample_env_simps:
  "url_Port sample_env = sample_Port"
  "url_String sample_env = sample_String"
  "os_Stat sample_env = sample_Stat"
  "ssh_Create sample_env = (\<lambda>entities mode w. (None, w))"
  "ReadCustomConfig sample_env = Inr"
  "Write sample_env = (\<lambda>cfg w. (None, cfg))"
  by (simp_all add: sample_env_def fun_eq_iff)


section \<open>Overrides that a scheme does not take\<close>

text \<open>
  Claim C5 says that a \<open>unix\<close> destination with \<open>--identity\<close>, and a \<open>tcp\<close> destination
  with \<open>--identity\<close> or \<open>--socket-path\<close>, always fail with the error of the unsupported
  option. Between the parse and the \<open>switch\<close> on the scheme the code looks at the
  configured ssh mode and returns "invalid ssh mode" when \<open>ssh.DefineMode\<close> does not
  know it, whatever the scheme: with the ssh mode \<open>bogus\<close>, a \<open>unix\<close> destination with
  \<open>--identity\<close> fails with that error instead.
\<close>

theorem invalid_ssh_mode_precedes_scheme_checks:
  "add (sample_env\<lparr>SSHMode := ''bogus''\<rparr>)
      (no_flags\<lparr>Changed := (\<lambda>f. f = ''identity''), Identity := ''~/.ssh/dev_rsa''\<rparr>)
      ''dev'' ''unix:///run/podman/podman.sock'' empty_registry =
     (Some InvalidSSHMode, empty_registry, [EvParse ''unix:///run/podman/podman.sock''])"
  using add_invalid_mode [where env = "sample_env\<lparr>SSHMode := ''bogus''\<rparr>"
      and dest = "''unix:///run/podman/podman.sock''"
      and fl = "no_flags\<lparr>Changed := (\<lambda>f. f = ''identity''), Identity := ''~/.ssh/dev_rsa''\<rparr>"
      and name = "''dev''" and w = empty_registry]
  by (simp add: sample_scheme_simps sample_env_def sample_Parse_def sample_DefineMode_def)

text \<open>
  Claim C5, amended. For a destination that parses: when the configured ssh mode is
  invalid, \<open>add\<close> fails with "invalid ssh mode" whatever the scheme and the flags.
  When it is valid: under scheme \<open>unix\<close> a given \<open>--identity\<close> makes \<open>add\<close> fail with
  "--identity option not supported for unix scheme"; under scheme \<open>tcp\<close> a given
  \<open>--socket-path\<close> or \<open>--identity\<close> makes it fail with the matching "not supported for
  tcp scheme" error (the one for \<open>--socket-path\<close> when both are given); under scheme
  \<open>ssh\<close> the code raises no such error: whatever flags were given, identity and socket
  path go to \<open>ssh.Create\<close> in the options, and the outcome of \<open>add\<close> is the outcome of
  that call. Each of the failures leaves the persisted state as it was.
\<close>

theorem override_incompatibility:
  assumes "url_Parse env (default_scheme dest) = Inr uri0"
    and "DefineMode env (SSHMode env) = mode"
    and "entities = \<lparr>cc_Port = Port fl, cc_Path = dest, cc_Identity = Identity fl,
                      cc_Name = name, cc_Socket = UDSPath fl, cc_Default = Default fl\<rparr>"
  shows "(mode = InvalidMode \<longrightarrow>
            add env fl name dest w = (Some InvalidSSHMode, w, [EvParse (default_scheme dest)])) \<and>
         (mode \<noteq> InvalidMode \<and> Scheme uri0 = ''unix'' \<and> Changed fl ''identity'' \<longrightarrow>
            add env fl name dest w =
              (Some IdentityNotSupportedUnix, w, [EvParse (default_scheme dest)])) \<and>
         (mode \<noteq> InvalidMode \<and> Scheme uri0 = ''tcp'' \<and> Changed fl ''socket-path'' \<longrightarrow>
            add env fl name dest w =
              (Some SocketPathNotSupportedTcp, w, [EvParse (default_scheme dest)])) \<and>
         (mode \<noteq> InvalidMode \<and> Scheme uri0 = ''tcp'' \<and> Changed fl ''identity'' \<longrightarrow>
            add env fl name dest w =
              (Some (if Changed fl ''socket-path'' then SocketPathNotSupportedTcp
                     else IdentityNotSupportedTcp),
               w, [EvParse (default_scheme dest)])) \<and>
         (mode \<noteq> InvalidMode \<and> Scheme uri0 = ''ssh'' \<longrightarrow>
            add env fl name dest w =
              (map_option SshCreateError (fst (ssh_Create env entities mode w)),
               snd (ssh_Create env entities mode w),
               [EvParse (default_scheme dest), EvSshCreate entities mode]))"
proof (intro conjI impI)
  assume "mode = InvalidMode"
  then show "add env fl name dest w =
      (Some InvalidSSHMode, w, [EvParse (default_scheme dest)])"
    using add_invalid_mode [OF assms(1), of fl name w] assms(2) by simp
next
  assume "mode \<noteq> InvalidMode \<and> Scheme uri0 = ''unix'' \<and> Changed fl ''identity''"
  then show "add env fl name dest w =
      (Some IdentityNotSupportedUnix, w, [EvParse (default_scheme dest)])"
    using add_unix [OF assms(1) _ _ refl, where fl = fl and name = name and w = w] assms(2)
    by simp
next
  assume "mode \<noteq> InvalidMode \<and> Scheme uri0 = ''tcp'' \<and> Changed fl ''socket-path''"
  then show "add env fl name dest w =
      (Some SocketPathNotSupportedTcp, w, [EvParse (default_scheme dest)])"
    using add_tcp [OF assms(1) _ _ refl, where fl = fl and name = name and w = w] assms(2)
    by simp
next
  assume "mode \<noteq> InvalidMode \<and> Scheme uri0 = ''tcp'' \<and> Changed fl ''identity''"
  then show "add env fl name dest w =
      (Some (if Changed fl ''socket-path'' then SocketPathNotSupportedTcp
             else IdentityNotSupportedTcp), w, [EvParse (default_scheme dest)])"
    using add_tcp [OF assms(1) _ _ refl, where fl = fl and name = name and w = w] assms(2)
    by simp
next
  assume "mode \<noteq> InvalidMode \<and> Scheme uri0 = ''ssh''"
  then show "add env fl name dest w =
      (map_option SshCreateError (fst (ssh_Create env entities mode w)),
       snd (ssh_Create env entities mode w),
       [EvParse (default_scheme dest), EvSshCreate entities mode])"
    using add_ssh [OF assms(1), where fl = fl and name = name and w = w] assms(2,3)
    by (simp add: Let_def)
qed

theorem override_incompatibility_witness:
  "add sample_env (no_flags\<lparr>Changed := (\<lambda>f. f = ''identity''), Identity := ''~/.ssh/dev_rsa''\<rparr>)
      ''dev'' ''unix:///run/podman/podman.sock'' empty_registry =
     (Some IdentityNotSupportedUnix, empty_registry, [EvParse ''unix:///run/podman/podman.sock'']) \<and>
   add sample_env (no_flags\<lparr>Changed := (\<lambda>f. f = ''socket-path''), UDSPath := ''/x''\<rparr>)
      ''debug'' ''tcp://localhost:8080'' empty_registry =
     (Some SocketPathNotSupportedTcp, empty_registry, [EvParse ''tcp://localhost:8080'']) \<and>
   add sample_env (no_flags\<lparr>Changed := (\<lambda>f. f = ''identity''), Identity := ''~/.ssh/dev_rsa''\<rparr>)
      ''debug'' ''tcp://localhost:8080'' empty_registry =
     (Some IdentityNotSupportedTcp, empty_registry, [EvParse ''tcp://localhost:8080'']) \<and>
   add sample_env
      (no_flags\<lparr>Changed := (\<lambda>f. f = ''identity'' \<or> f = ''socket-path''),
                Identity := ''~/.ssh/dev_rsa'', UDSPath := ''/x''\<rparr>)
      ''testing'' ''ssh://h'' empty_registry =
     (None, empty_registry,
      [EvParse ''ssh://h'',
       EvSshCreate \<lparr>cc_Port = 22, cc_Path = ''ssh://h'', cc_Identity = ''~/.ssh/dev_rsa'',
                    cc_Name = ''testing'', cc_Socket = ''/x'', cc_Default = False\<rparr> GolangMode])"
  using
    override_incompatibility [where env = sample_env and dest = "''unix:///run/podman/podman.sock''" and mode = GolangMode
      and fl = "no_flags\<lparr>Changed := (\<lambda>f. f = ''identity''), Identity := ''~/.ssh/dev_rsa''\<rparr>"
      and name = "''dev''" and w = empty_registry, OF _ sample_mode refl]
    override_incompatibility [where env = sample_env and dest = "''tcp://localhost:8080''" and mode = GolangMode
      and fl = "no_flags\<lparr>Changed := (\<lambda>f. f = ''socket-path''), UDSPath := ''/x''\<rparr>"
      and name = "''debug''" and w = empty_registry, OF _ sample_mode refl]
    override_incompatibility [where env = sample_env and dest = "''tcp://localhost:8080''" and mode = GolangMode
      and fl = "no_flags\<lparr>Changed := (\<lambda>f. f = ''identity''), Identity := ''~/.ssh/dev_rsa''\<rparr>"
      and name = "''debug''" and w = empty_registry, OF _ sample_mode refl]
    override_incompatibility [where env = sample_env and dest = "''ssh://h''" and mode = GolangMode
      and fl = "no_flags\<lparr>Changed := (\<lambda>f. f = ''identity'' \<or> f = ''socket-path''),
                Identity := ''~/.ssh/dev_rsa'', UDSPath := ''/x''\<rparr>"
      and name = "''testing''" and w = empty_registry, OF _ sample_mode refl]
  by (simp add: sample_scheme_simps sample_parse_simps sample_env_simps no_flags_def)

section \<open>The \<open>unix\<close> scheme and \<open>os.Stat\<close>\<close>




section \<open>Errors before the registry is loaded\<close>

text \<open>
  Claim C10. When \<open>add\<close> returns an error of destination parsing or of the checks of a
  scheme (the parser's error, an override the scheme does not take, the missing tcp
  port, a unix path that is not a socket, a fatal error of \<open>os.Stat\<close>; the invalid ssh
  mode as well), it has called neither \<open>config.ReadCustomConfig\<close> nor \<open>cfg.Write\<close> nor
  \<open>ssh.Create\<close>, and the persisted state is what it was before the call.
\<close>

theorem validation_error_leaves_registry:
  assumes "add env fl name dest w = (Some e, w', tr)"
    and "e \<in> {InvalidSSHMode, IdentityNotSupportedUnix, SocketPathNotSupportedTcp,
               IdentityNotSupportedTcp, TcpRequiresPort} \<or>
         (\<exists>x. e = UrlParseError x) \<or> (\<exists>x. e = StatError x) \<or> (\<exists>x. e = NotUnixSocket x)"
  shows "w' = w \<and> EvReadConfig \<notin> set tr \<and> (\<forall>cfg. EvWrite cfg \<notin> set tr) \<and>
         (\<forall>entities mode. EvSshCreate entities mode \<notin> set tr)"
proof (cases "url_Parse env (default_scheme dest)")
  case (Inl x)
  then show ?thesis using assms(1) by (auto simp: add_parse_error)
next
  case (Inr uri0)
  define uri where "uri = (if Changed fl ''socket-path'' then uri0\<lparr>Path := UDSPath fl\<rparr> else uri0)"
  have ne: "\<not> (\<exists>x. e = ReadConfigError x)" "\<not> (\<exists>x. e = WriteError x)"
    "\<not> (\<exists>x. e = SshCreateError x)"
    using assms(2) by auto
  have store: "add_store env fl name uri w t \<noteq> (Some e, w', tr)" for t
    using add_store_error [of env fl name uri w t e w' tr] ne by blast
  show ?thesis
  proof (cases "DefineMode env (SSHMode env) = InvalidMode")
    case True
    then show ?thesis using assms(1) Inr by (auto simp: add_invalid_mode)
  next
    case False
    consider (ssh) "Scheme uri0 = ''ssh''" | (unix) "Scheme uri0 = ''unix''"
      | (tcp) "Scheme uri0 = ''tcp''"
      | (other) "Scheme uri0 \<noteq> ''ssh''" "Scheme uri0 \<noteq> ''unix''" "Scheme uri0 \<noteq> ''tcp''"
      by blast
    then show ?thesis
    proof cases
      case ssh
      then show ?thesis
        using assms(1) ne(3) add_ssh [OF Inr False ssh, of fl name w]
        by (auto simp: Let_def)
    next
      case unix
      show ?thesis
        using assms(1) store add_unix [OF Inr False unix uri_def, of name w]
        by (auto split: if_splits sum.splits stat_error.splits)
    next
      case tcp
      show ?thesis
        using assms(1) store add_tcp [OF Inr False tcp uri_def, of name w]
        by (auto split: if_splits)
    next
      case other
      show ?thesis
        using assms(1) store add_other [OF Inr False other uri_def, of name w]
        by auto
    qed
  qed
qed

theorem validation_error_leaves_registry_witness:
  "add sample_env no_flags ''debug'' ''tcp://localhost'' laptop_registry =
     (Some TcpRequiresPort, laptop_registry, [EvParse ''tcp://localhost'']) \<and>
   EvReadConfig \<notin> set [EvParse ''tcp://localhost''] \<and>
   add sample_env no_flags ''sock'' ''unix:///etc/hostname'' laptop_registry =
     (Some (NotUnixSocket ''/etc/hostname''), laptop_registry,
      [EvParse ''unix:///etc/hostname'', EvStat ''/etc/hostname'']) \<and>
   EvReadConfig \<notin> set [EvParse ''unix:///etc/hostname'', EvStat ''/etc/hostname'']"
proof -
  have a: "add sample_env no_flags ''debug'' ''tcp://localhost'' laptop_registry =
     (Some TcpRequiresPort, laptop_registry, [EvParse ''tcp://localhost''])"
    using add_tcp [where env = sample_env and dest = "''tcp://localhost''" and fl = no_flags
        and name = "''debug''" and w = laptop_registry, OF _ _ _ refl]
    by (simp add: sample_scheme_simps sample_parse_simps sample_env_simps sample_mode
        no_flags_def sample_Port_def)
  have b: "add sample_env no_flags ''sock'' ''unix:///etc/hostname'' laptop_registry =
     (Some (NotUnixSocket ''/etc/hostname''), laptop_registry,
      [EvParse ''unix:///etc/hostname'', EvStat ''/etc/hostname''])"
    using add_unix [where env = sample_env and dest = "''unix:///etc/hostname''"
        and fl = no_flags and name = "''sock''" and w = laptop_registry, OF _ _ _ refl]
    by (simp add: sample_scheme_simps sample_parse_simps sample_env_simps sample_mode
        no_flags_def sample_Stat_def ModeSocket_def)
  show ?thesis
    using validation_error_leaves_registry [OF a] validation_error_leaves_registry [OF b] a b
    by simp
qed

section \<open>From validation to the registry\<close>




section \<open>The \<open>tcp\<close> scheme and its port\<close>

text \<open>
  Claim C3 says that under scheme \<open>tcp\<close> the port may come from the URL or from
  \<open>--port\<close>, as the error message of the code says as well ("tcp scheme requires a port
  either via --port or in destination URL"). The check of the code is \<open>uri.Port() == ""\<close>
  on the parsed URL and nothing writes \<open>cOpts.Port\<close> into the URL: for a destination that
  parses to scheme \<open>tcp\<close>, with a valid ssh mode and neither \<open>--socket-path\<close> nor
  \<open>--identity\<close>, \<open>add\<close> fails with that error exactly when the URL has no port, whatever
  \<open>--port\<close> holds and whether or not it was given. The second theorem runs
  \<open>add --port 8080 debug tcp://localhost\<close>.
\<close>

theorem tcp_port_check_reads_url_only:
  assumes "url_Parse env (default_scheme dest) = Inr uri0"
    and "DefineMode env (SSHMode env) \<noteq> InvalidMode"
    and "Scheme uri0 = ''tcp''"
    and "\<not> Changed fl ''socket-path''" and "\<not> Changed fl ''identity''"
  shows "(url_Port env uri0 = [] \<longrightarrow>
            add env fl name dest w = (Some TcpRequiresPort, w, [EvParse (default_scheme dest)])) \<and>
         (url_Port env uri0 \<noteq> [] \<longrightarrow>
            add env fl name dest w =
              add_store env fl name uri0 w [EvParse (default_scheme dest)])"
  using add_tcp [OF assms(1,2,3) refl, of fl name w] assms(4,5) by simp

theorem tcp_port_check_reads_url_only_witness:
  "add sample_env (no_flags\<lparr>Changed := (\<lambda>f. f = ''port''), Port := 8080\<rparr>)
      ''debug'' ''tcp://localhost'' empty_registry =
     (Some TcpRequiresPort, empty_registry, [EvParse ''tcp://localhost''])"
  using tcp_port_check_reads_url_only [where env = sample_env and dest = "''tcp://localhost''"
      and fl = "no_flags\<lparr>Changed := (\<lambda>f. f = ''port''), Port := 8080\<rparr>"
      and name = "''debug''" and w = empty_registry]
  by (simp add: sample_scheme_simps sample_parse_simps sample_env_simps sample_mode
      sample_Port_def)

section \<open>\<open>create\<close>\<close>

lemma create_calls:
  "set (snd (snd (create env dockerPath name w))) \<subseteq>
     range EvParse \<union> {EvReadConfig} \<union> range EvWrite"
  by (auto simp: create_def Let_def split: sum.splits prod.splits)



end
